theory Spec2Isabelle
  imports Complex_Main
begin

section \<open>The liveness capture page\<close>

text \<open>
  A shallow embedding of the component \<open>LivenessPage\<close>: the React state and the refs of the
  component are the fields of one record, every handler is a function from the state
  before to the state after, and what a handler reads from its surroundings (the face
  detector's predictions, the camera image, the reply of the remote verifier) is an
  argument of the function.
\<close>

subsection \<open>JavaScript numbers\<close>

text \<open>
  The numbers of the source are IEEE doubles. The model computes with real numbers, and
  keeps the three values a division by zero produces apart from the finite ones:
  the oval size is a \<open>number\<close> that the source can set to \<open>NaN\<close>.
\<close>

datatype jsnum = Fin real | PInf | NInf | NaN

definition js_div :: "real \<Rightarrow> real \<Rightarrow> jsnum" where
  "js_div a b =
     (if b = 0 then (if 0 < a then PInf else if a < 0 then NInf else NaN)
      else Fin (a / b))"

fun js_lt :: "jsnum \<Rightarrow> real \<Rightarrow> bool" where
  "js_lt (Fin x) c = (x < c)"
| "js_lt NInf c = True"
| "js_lt PInf c = False"
| "js_lt NaN c = False"

fun js_gt :: "jsnum \<Rightarrow> real \<Rightarrow> bool" where
  "js_gt (Fin x) c = (c < x)"
| "js_gt PInf c = True"
| "js_gt NInf c = False"
| "js_gt NaN c = False"

text \<open>The expression \<open>60 + (faceRatio - 0.15) / 0.2 * 25\<close> of the good-distance branch.\<close>

definition ovalFor :: "real \<Rightarrow> real" where
  "ovalFor r = 60 + (r - 0.15) / 0.2 * 25"

fun mapOval :: "jsnum \<Rightarrow> jsnum" where
  "mapOval (Fin r) = Fin (ovalFor r)"
| "mapOval PInf = PInf"
| "mapOval NInf = NInf"
| "mapOval NaN = NaN"

subsection \<open>Data\<close>

datatype verif_method = Passive | Active

datatype page_step = Input | Camera | Processing | Result

datatype distance = TooFar | Good | TooClose

datatype color = White | Green | Red

record LivenessSession =
  sessionId :: string
  sessionNik :: string
  sessionMethod :: verif_method
  challenges :: "string list option"
  expiresAt :: string

record LivenessResult =
  resSessionId :: string
  resNik :: string
  resMethod :: string
  isLive :: bool
  confidence :: real
  fileFace :: "string option"
  failureReason :: "string option"
  errorCode :: "string option"

text \<open>A frame; the optional \<open>faceBox\<close> of the interface is never set by the page.\<close>

record Frame =
  timestamp :: nat
  action :: "string option"
  image :: string

text \<open>One prediction of the detector: the two corners of the bounding box.\<close>

record prediction =
  topLeft :: "real \<times> real"
  bottomRight :: "real \<times> real"

text \<open>
  What one detection tick reads: whether the video element, the loaded model, the
  detection canvas and its 2D context are all there, the size of the video frame, and the
  predictions of \<open>estimateFaces\<close> (\<open>None\<close> when the call throws).
\<close>

record tick =
  refsReady :: bool
  videoWidth :: nat
  videoHeight :: nat
  predictions :: "prediction list option"

text \<open>
  The state of the page: the \<open>useState\<close> cells, then the refs (\<open>streamActive\<close> and
  \<open>detectionTimer\<close> say that \<open>streamRef.current\<close> and \<open>detectionIntervalRef.current\<close>
  hold a running stream and a running interval; \<open>pageMethod\<close> is the cell \<open>method\<close>),
  then two ghost fields: the clock in
  milliseconds that \<open>Date.now()\<close> reads and \<open>setTimeout\<close> waits advance, and the
  requests sent to the verify endpoint.
\<close>

record page =
  nik :: string
  pageMethod :: verif_method
  session :: "LivenessSession option"
  result :: "LivenessResult option"
  step :: page_step
  loading :: bool
  error :: "string option"
  cameraReady :: bool
  countdown :: "nat option"
  currentChallenge :: "string option"
  challengeIndex :: nat
  instruction :: string
  faceDetected :: bool
  faceCount :: nat
  faceDistance :: "distance option"
  ovalSize :: jsnum
  borderColor :: color
  isCapturing :: bool
  streamActive :: bool
  frames :: "Frame list"
  detectionTimer :: bool
  now :: nat
  requests :: "(string \<times> Frame list) list"

text \<open>The state of a freshly mounted page, at clock \<open>t0\<close>.\<close>

definition initialPage :: "nat \<Rightarrow> page" where
  "initialPage t0 =
     \<lparr> nik = '''', pageMethod = Passive, session = None, result = None, step = Input,
       loading = False, error = None, cameraReady = False, countdown = None,
       currentChallenge = None, challengeIndex = 0,
       instruction = ''Posisikan wajah dalam bingkai oval'',
       faceDetected = False, faceCount = 0, faceDistance = None, ovalSize = Fin 60,
       borderColor = White, isCapturing = False, streamActive = False, frames = [],
       detectionTimer = False, now = t0, requests = [] \<rparr>"

subsection \<open>The guidance engine: \<open>detectFace\<close>\<close>

definition faceRatio :: "prediction \<Rightarrow> tick \<Rightarrow> jsnum" where
  "faceRatio face t =
     (let width = fst (bottomRight face) - fst (topLeft face);
          height = snd (bottomRight face) - snd (topLeft face);
          faceArea = width * height;
          videoArea = real (videoWidth t * videoHeight t)
      in js_div faceArea videoArea)"

text \<open>
  The state updates of one run of \<open>detectFace\<close>. The value the function returns is
  dropped by its only caller, the interval callback, and is not modelled. The local
  \<open>newOvalSize\<close> starts as the current oval size and is assigned in each of the three
  branches for a single face, so the start value never reaches \<open>setOvalSize\<close>.
\<close>

definition detectFace :: "page \<Rightarrow> tick \<Rightarrow> page" where
  "detectFace s t =
     (if refsReady t then
        (case predictions t of
           None \<Rightarrow> s
         | Some ps \<Rightarrow>
             if length ps = 0 then
               s\<lparr>faceDetected := False, faceCount := 0, faceDistance := None\<rparr>
             else if 1 < length ps then
               s\<lparr>faceCount := length ps, borderColor := Red,
                 instruction := ''Pastikan hanya satu wajah dalam bingkai''\<rparr>
             else
               (let r = faceRatio (ps ! 0) t in
                if js_lt r 0.15 then
                  s\<lparr>instruction := ''Terlalu jauh, dekatkan wajah Anda'',
                    borderColor := White, faceDetected := True, faceCount := 1,
                    faceDistance := Some TooFar, ovalSize := Fin 60\<rparr>
                else if js_gt r 0.35 then
                  s\<lparr>instruction := ''Terlalu dekat, mundur sedikit'',
                    borderColor := White, faceDetected := True, faceCount := 1,
                    faceDistance := Some TooClose, ovalSize := Fin 85\<rparr>
                else
                  s\<lparr>instruction := ''Wajah terdeteksi'',
                    borderColor := Green, faceDetected := True, faceCount := 1,
                    faceDistance := Some Good, ovalSize := mapOval r\<rparr>))
      else s)"

text \<open>
  The capture-eligibility predicate: the guard of \<open>startVerification\<close>, and the part of
  the capture button's \<open>disabled\<close> attribute that reads the guidance state.
\<close>

definition canCapture :: "page \<Rightarrow> bool" where
  "canCapture s = (faceDetected s \<and> faceDistance s = Some Good \<and> faceCount s = 1)"

text \<open>The \<open>disabled\<close> attribute of the capture button.\<close>

definition captureDisabled :: "page \<Rightarrow> bool" where
  "captureDisabled s =
     (\<not> cameraReady s \<or> countdown s \<noteq> None \<or> \<not> faceDetected s \<or>
      faceDistance s \<noteq> Some Good \<or> faceCount s \<noteq> 1 \<or> isCapturing s)"

text \<open>
  A tick that observes exactly one face at good distance: the detector ran, returned one
  prediction, and neither comparison of \<open>detectFace\<close> sends it to a too-far or
  too-close branch.
\<close>

definition seesOneGood :: "tick \<Rightarrow> bool" where
  "seesOneGood t =
     (refsReady t \<and>
      (case predictions t of
         Some [face] \<Rightarrow>
           \<not> js_lt (faceRatio face t) 0.15 \<and> \<not> js_gt (faceRatio face t) 0.35
       | _ \<Rightarrow> False))"

text \<open>A tick on a 1280 x 720 frame that sees the given boxes, each from the origin.\<close>

definition boxAt :: "real \<Rightarrow> real \<Rightarrow> prediction" where
  "boxAt w h = \<lparr> topLeft = (0, 0), bottomRight = (w, h) \<rparr>"

definition tickOf :: "prediction list \<Rightarrow> tick" where
  "tickOf ps = \<lparr> refsReady = True, videoWidth = 1280, videoHeight = 720,
                 predictions = Some ps \<rparr>"

subsection \<open>Camera, timers and frames\<close>

text \<open>What \<open>getUserMedia\<close> and the video element answer when the camera is started.\<close>

datatype camera_reply = CamGranted bool | CamPlayFailed | CamDenied

text \<open>
  \<open>CamGranted v\<close>: the stream is granted and plays, \<open>v\<close> says that the video element is
  mounted; \<open>CamPlayFailed\<close>: the stream is granted and \<open>play()\<close> throws; \<open>CamDenied\<close>:
  \<open>getUserMedia\<close> throws.
\<close>

definition startCamera :: "camera_reply \<Rightarrow> page \<Rightarrow> page" where
  "startCamera g s =
     (case g of
        CamDenied \<Rightarrow>
          s\<lparr>error := Some ''Tidak dapat mengakses kamera. Pastikan izin kamera diberikan.''\<rparr>
      | CamPlayFailed \<Rightarrow>
          s\<lparr>streamActive := True,
            error := Some ''Tidak dapat mengakses kamera. Pastikan izin kamera diberikan.''\<rparr>
      | CamGranted v \<Rightarrow>
          if v then
            s\<lparr>streamActive := True, cameraReady := True,
              instruction := ''Posisikan wajah dalam bingkai oval'',
              borderColor := White, ovalSize := Fin 60\<rparr>
          else s\<lparr>streamActive := True\<rparr>)"

definition stopCamera :: "page \<Rightarrow> page" where
  "stopCamera s =
     s\<lparr>streamActive := False, detectionTimer := False, cameraReady := False,
       faceDetected := False\<rparr>"

text \<open>
  The effect that owns the detection loop, run after a render: its cleanup clears the
  interval of the previous run, and its body starts a new one (period 100 ms) only in the
  camera step, with the camera ready and no capture in progress.
\<close>

definition detectionEffect :: "page \<Rightarrow> page" where
  "detectionEffect s =
     s\<lparr>detectionTimer := (step s = Camera \<and> cameraReady s \<and> \<not> isCapturing s)\<rparr>"

text \<open>
  The camera as \<open>captureFrame\<close> sees it: at each instant either the encoded image of
  the current video frame, or nothing when the video element, the capture canvas or its
  2D context is missing.
\<close>

type_synonym camera = "nat \<Rightarrow> string option"

definition captureFrame :: "camera \<Rightarrow> page \<Rightarrow> string option \<Rightarrow> Frame option" where
  "captureFrame cam s act =
     (case cam (now s) of
        None \<Rightarrow> None
      | Some img \<Rightarrow> Some \<lparr> timestamp = now s, action = act, image = img \<rparr>)"

text \<open>\<open>if (frame) framesRef.current.push(frame)\<close>\<close>

definition pushFrame :: "Frame option \<Rightarrow> page \<Rightarrow> page" where
  "pushFrame f s = (case f of None \<Rightarrow> s | Some fr \<Rightarrow> s\<lparr>frames := frames s @ [fr]\<rparr>)"

text \<open>\<open>await new Promise(r => setTimeout(r, d))\<close>: the clock moves on by \<open>d\<close>.\<close>

definition sleep :: "nat \<Rightarrow> page \<Rightarrow> page" where
  "sleep d s = s\<lparr>now := now s + d\<rparr>"

text \<open>\<open>a || b\<close> on a string that may be undefined: the empty string is falsy too.\<close>

definition orElse :: "string option \<Rightarrow> string \<Rightarrow> string" where
  "orElse a b = (case a of None \<Rightarrow> b | Some x \<Rightarrow> if x = [] then b else x)"

text \<open>
  The table of challenge texts, with its five own keys; a lookup of any other string
  gives nothing (the properties an object literal inherits are not modelled).
\<close>

definition CHALLENGE_NAMES :: "string \<Rightarrow> string option" where
  "CHALLENGE_NAMES =
     [''blink'' \<mapsto> ''Kedipkan mata Anda'',
      ''smile'' \<mapsto> ''Tersenyumlah'',
      ''nod'' \<mapsto> ''Anggukkan kepala Anda'',
      ''turnRight'' \<mapsto> ''Putar kepala ke kanan'',
      ''turnLeft'' \<mapsto> ''Putar kepala ke kiri'']"

definition methodName :: "verif_method \<Rightarrow> string" where
  "methodName m = (case m of Passive \<Rightarrow> ''passive'' | Active \<Rightarrow> ''active'')"

subsection \<open>The remote verifier\<close>

text \<open>
  What the verify request comes back with: a body with \<open>success\<close> set and its \<open>data\<close>, a
  body without \<open>success\<close> and its \<open>message\<close> and \<open>error.code\<close>, or an exception of
  \<open>fetch\<close> or of \<open>response.json()\<close> with its message.
\<close>

datatype verify_reply =
  ReplyOk "LivenessResult option"
| ReplyFail "string option" "string option"
| Threw "string option"

definition submitVerification :: "verify_reply \<Rightarrow> page \<Rightarrow> page" where
  "submitVerification reply s =
     (case session s of
        None \<Rightarrow> s\<lparr>error := Some ''Tidak ada frame yang di-capture''\<rparr>
      | Some sess \<Rightarrow>
          if length (frames s) = 0 then
            s\<lparr>error := Some ''Tidak ada frame yang di-capture''\<rparr>
          else
            (let s1 = stopCamera (s\<lparr>step := Processing\<rparr>);
                 s2 = s1\<lparr>requests := requests s1 @ [(sessionId sess, frames s1)]\<rparr>
             in case reply of
                  ReplyOk d \<Rightarrow> s2\<lparr>result := d, step := Result\<rparr>
                | ReplyFail msg code \<Rightarrow>
                    s2\<lparr>result := Some
                         \<lparr> resSessionId = sessionId sess, resNik = sessionNik sess,
                           resMethod = methodName (sessionMethod sess), isLive = False,
                           confidence = 0, fileFace = None,
                           failureReason = Some (orElse msg ''Verification failed''),
                           errorCode = code \<rparr>,
                       step := Result\<rparr>
                | Threw msg \<Rightarrow>
                    s2\<lparr>error := Some (orElse msg ''Terjadi kesalahan saat verifikasi''),
                       step := Result\<rparr>))"

subsection \<open>Capture\<close>

text \<open>\<open>for (let i = 0; i < 5; i++)\<close>: capture, push, wait 400 ms.\<close>

function passiveLoop :: "camera \<Rightarrow> nat \<Rightarrow> page \<Rightarrow> page" where
  "passiveLoop cam i s =
     (if i < 5 then
        passiveLoop cam (Suc i) (sleep 400 (pushFrame (captureFrame cam s None) s))
      else s)"
  by pat_completeness auto
termination
  by (relation "measure (\<lambda>(cam, i, s). 5 - i)") auto

declare passiveLoop.simps [simp del]

definition runPassiveVerification :: "camera \<Rightarrow> verify_reply \<Rightarrow> page \<Rightarrow> page" where
  "runPassiveVerification cam reply s =
     (let s1 = s\<lparr>instruction := ''Tetap diam, sedang memverifikasi...'',
                borderColor := Green, frames := []\<rparr>;
          s2 = passiveLoop cam 0 s1
      in submitVerification reply s2)"

text \<open>The first four statements of the active loop's body: the challenge is shown.\<close>

definition showChallenge :: "nat \<Rightarrow> string \<Rightarrow> page \<Rightarrow> page" where
  "showChallenge i challenge s =
     s\<lparr>challengeIndex := i, currentChallenge := Some challenge,
       instruction := orElse (CHALLENGE_NAMES challenge) challenge,
       borderColor := White\<rparr>"

text \<open>
  \<open>for (let i = 0; i < session.challenges.length; i++)\<close>: show the challenge, wait
  2500 ms, capture a frame tagged with the challenge, push.
\<close>

function activeLoop :: "camera \<Rightarrow> string list \<Rightarrow> nat \<Rightarrow> page \<Rightarrow> page" where
  "activeLoop cam cs i s =
     (if i < length cs then
        (let challenge = cs ! i;
             s1 = showChallenge i challenge s;
             s2 = sleep 2500 s1;
             s3 = pushFrame (captureFrame cam s2 (Some challenge)) s2
         in activeLoop cam cs (Suc i) s3)
      else s)"
  by pat_completeness auto
termination
  by (relation "measure (\<lambda>(cam, cs, i, s). length cs - i)") auto

declare activeLoop.simps [simp del]

definition runActiveVerification :: "camera \<Rightarrow> verify_reply \<Rightarrow> page \<Rightarrow> page" where
  "runActiveVerification cam reply s =
     (case session s of
        None \<Rightarrow> s
      | Some sess \<Rightarrow>
          (case challenges sess of
             None \<Rightarrow> s
           | Some cs \<Rightarrow>
               (let s1 = s\<lparr>frames := []\<rparr>;
                    s2 = activeLoop cam cs 0 s1;
                    s3 = s2\<lparr>currentChallenge := None\<rparr>
                in submitVerification reply s3)))"

text \<open>\<open>for (let i = 3; i > 0; i--)\<close>: show the count, wait one second.\<close>

fun countdownLoop :: "nat \<Rightarrow> page \<Rightarrow> page" where
  "countdownLoop 0 s = s"
| "countdownLoop (Suc n) s = countdownLoop n (sleep 1000 (s\<lparr>countdown := Some (Suc n)\<rparr>))"

definition startVerification :: "camera \<Rightarrow> verify_reply \<Rightarrow> page \<Rightarrow> page" where
  "startVerification cam reply s =
     (case session s of
        None \<Rightarrow> s
      | Some sess \<Rightarrow>
          if \<not> faceDetected s \<or> faceDistance s \<noteq> Some Good \<or> faceCount s \<noteq> 1 then
            s\<lparr>error :=
                Some ''Pastikan wajah terdeteksi dengan baik dan posisi tepat di tengah''\<rparr>
          else
            (let s1 = s\<lparr>isCapturing := True, instruction := ''Bersiap...'',
                       countdown := Some 3\<rparr>;
                 s2 = countdownLoop 3 s1;
                 s3 = s2\<lparr>countdown := None\<rparr>;
                 s4 = (if pageMethod s3 = Passive then runPassiveVerification cam reply s3
                       else runActiveVerification cam reply s3)
             in s4\<lparr>isCapturing := False\<rparr>))"

subsection \<open>Intake and reset\<close>

datatype session_reply =
  SessionOk LivenessSession
| SessionFail "string option"
| SessionThrew "string option"

definition createSession :: "session_reply \<Rightarrow> camera_reply \<Rightarrow> page \<Rightarrow> page" where
  "createSession reply g s =
     (if nik s = [] \<or> length (nik s) \<noteq> 16 then s\<lparr>error := Some ''NIK harus 16 digit''\<rparr>
      else
        (let s0 = s\<lparr>loading := True, error := None\<rparr> in
         case reply of
           SessionOk sess \<Rightarrow>
             (startCamera g (s0\<lparr>session := Some sess, step := Camera, frames := []\<rparr>))
               \<lparr>loading := False\<rparr>
         | SessionFail msg \<Rightarrow>
             s0\<lparr>error := Some (orElse (Some (orElse msg ''Failed to create session''))
                                ''Terjadi kesalahan''),
                loading := False\<rparr>
         | SessionThrew msg \<Rightarrow>
             s0\<lparr>error := Some (orElse msg ''Terjadi kesalahan''), loading := False\<rparr>))"

definition handleReset :: "page \<Rightarrow> page" where
  "handleReset s =
     (stopCamera s)
       \<lparr>session := None, result := None, error := None, step := Input, frames := [],
        challengeIndex := 0, currentChallenge := None, faceDetected := False,
        faceCount := 0, faceDistance := None, ovalSize := Fin 60, borderColor := White,
        isCapturing := False\<rparr>"

subsection \<open>Concrete inputs\<close>

text \<open>A camera that always delivers, and one that never does.\<close>

definition steadyCam :: camera where
  "steadyCam = (\<lambda>t. Some ''jpeg'')"

definition deadCam :: camera where
  "deadCam = (\<lambda>t. None)"

definition passiveSession :: LivenessSession where
  "passiveSession =
     \<lparr> sessionId = ''s-1'', sessionNik = ''3275035402950020'', sessionMethod = Passive,
       challenges = None, expiresAt = ''2026-01-01T00:00:00Z'' \<rparr>"


text \<open>
  The page after intake with the given method and session, the camera granted, and one
  detection tick that sees a single face filling a quarter of the frame.
\<close>

definition readyPage :: "verif_method \<Rightarrow> LivenessSession \<Rightarrow> page" where
  "readyPage m sess =
     detectFace
       (detectionEffect
          (createSession (SessionOk sess) (CamGranted True)
             ((initialPage 1000)\<lparr>nik := ''3275035402950020'', pageMethod := m\<rparr>)))
       (tickOf [boxAt 480 480])"

section \<open>Properties of the guidance engine\<close>

subsection \<open>The branches of \<open>detectFace\<close>\<close>


lemma detectFace_single:
  "refsReady t \<Longrightarrow> predictions t = Some [face] \<Longrightarrow>
   detectFace s t =
     (let r = faceRatio face t in
      if js_lt r 0.15 then
        s\<lparr>instruction := ''Terlalu jauh, dekatkan wajah Anda'',
          borderColor := White, faceDetected := True, faceCount := 1,
          faceDistance := Some TooFar, ovalSize := Fin 60\<rparr>
      else if js_gt r 0.35 then
        s\<lparr>instruction := ''Terlalu dekat, mundur sedikit'',
          borderColor := White, faceDetected := True, faceCount := 1,
          faceDistance := Some TooClose, ovalSize := Fin 85\<rparr>
      else
        s\<lparr>instruction := ''Wajah terdeteksi'',
          borderColor := Green, faceDetected := True, faceCount := 1,
          faceDistance := Some Good, ovalSize := mapOval r\<rparr>)"
  by (simp add: detectFace_def)

lemma detectFace_many:
  "refsReady t \<Longrightarrow> predictions t = Some ps \<Longrightarrow> 1 < length ps \<Longrightarrow>
   detectFace s t =
     s\<lparr>faceCount := length ps, borderColor := Red,
       instruction := ''Pastikan hanya satu wajah dalam bingkai''\<rparr>"
  by (auto simp add: detectFace_def)

lemma detectFace_none:
  "refsReady t \<Longrightarrow> predictions t = Some [] \<Longrightarrow>
   detectFace s t = s\<lparr>faceDetected := False, faceCount := 0, faceDistance := None\<rparr>"
  by (simp add: detectFace_def)

lemma tick_ratio: "faceRatio (boxAt w h) (tickOf ps) = Fin (w * h / 921600)"
  by (simp add: faceRatio_def boxAt_def tickOf_def js_div_def)

lemma tickOf_simps: "refsReady (tickOf ps)" "predictions (tickOf ps) = Some ps"
  by (simp_all add: tickOf_def)

subsection \<open>Good distance\<close>



subsection \<open>Too far, too close\<close>



subsection \<open>The page that is ready to capture\<close>

lemma readyPage_guidance:
  "faceDetected (readyPage m sess)" "faceCount (readyPage m sess) = 1"
  "faceDistance (readyPage m sess) = Some Good"
  "instruction (readyPage m sess) = ''Wajah terdeteksi''"
  "borderColor (readyPage m sess) = Green"
  "ovalSize (readyPage m sess) = Fin 72.5"
  by (simp_all add: readyPage_def detectFace_single [OF tickOf_simps] tick_ratio ovalFor_def)

lemma readyPage_flow:
  "session (readyPage m sess) = Some sess" "step (readyPage m sess) = Camera"
  "frames (readyPage m sess) = []" "now (readyPage m sess) = 1000"
  "requests (readyPage m sess) = []" "pageMethod (readyPage m sess) = m"
  "result (readyPage m sess) = None" "streamActive (readyPage m sess)"
  "cameraReady (readyPage m sess)" "detectionTimer (readyPage m sess)"
  "error (readyPage m sess) = None"
  by (simp_all add: readyPage_def detectFace_single [OF tickOf_simps] tick_ratio
      createSession_def startCamera_def detectionEffect_def initialPage_def Let_def)

subsection \<open>More than one face\<close>

text \<open>
  Claim C10. A detection tick that sees more than one face updates the face count, the
  border colour (red) and the instruction, and nothing else: whether a face is detected,
  the distance class and the oval size keep the values of the tick before. So
  \<open>faceDetected\<close> stays true, if it was, while several faces are in view.
\<close>

theorem many_faces_frame:
  assumes "refsReady t" and "predictions t = Some ps" and "1 < length ps"
  shows "detectFace s t =
           s\<lparr>faceCount := length ps, borderColor := Red,
             instruction := ''Pastikan hanya satu wajah dalam bingkai''\<rparr>
       \<and> faceDetected (detectFace s t) = faceDetected s
       \<and> faceDistance (detectFace s t) = faceDistance s
       \<and> ovalSize (detectFace s t) = ovalSize s
       \<and> (faceDetected s \<longrightarrow> faceDetected (detectFace s t) \<and> 1 < faceCount (detectFace s t))"
  using assms(3) by (simp add: detectFace_many [OF assms])

text \<open>After a tick with one face at good distance, a tick with two faces.\<close>

theorem many_faces_frame_witness:
  "faceDetected (readyPage Passive passiveSession)
   \<and> faceDetected (detectFace (readyPage Passive passiveSession)
        (tickOf [boxAt 480 480, boxAt 200 200]))
   \<and> faceCount (detectFace (readyPage Passive passiveSession)
        (tickOf [boxAt 480 480, boxAt 200 200])) = 2
   \<and> faceDistance (detectFace (readyPage Passive passiveSession)
        (tickOf [boxAt 480 480, boxAt 200 200])) = Some Good
   \<and> ovalSize (detectFace (readyPage Passive passiveSession)
        (tickOf [boxAt 480 480, boxAt 200 200])) = Fin 72.5
   \<and> borderColor (detectFace (readyPage Passive passiveSession)
        (tickOf [boxAt 480 480, boxAt 200 200])) = Red"
  using many_faces_frame [of "tickOf [boxAt 480 480, boxAt 200 200]"
      "[boxAt 480 480, boxAt 200 200]" "readyPage Passive passiveSession"]
  by (simp add: tickOf_simps readyPage_guidance)

subsection \<open>Capture eligibility\<close>

lemma detectFace_stays_disabled:
  "\<not> canCapture s \<Longrightarrow> \<not> seesOneGood t \<Longrightarrow> \<not> canCapture (detectFace s t)"
  by (auto simp add: detectFace_def canCapture_def seesOneGood_def Let_def
      split: option.splits list.splits if_splits)

lemma ticks_stay_disabled:
  "\<not> canCapture s \<Longrightarrow> \<forall>u \<in> set ts. \<not> seesOneGood u \<Longrightarrow>
   \<not> canCapture (foldl detectFace s ts)"
  by (induction ts arbitrary: s) (simp_all add: detectFace_stays_disabled)

lemma seesOneGood_enables: "seesOneGood t \<Longrightarrow> canCapture (detectFace s t)"
  by (auto simp add: detectFace_def canCapture_def seesOneGood_def Let_def
      split: option.splits list.splits if_splits)

lemma startVerification_refused:
  "session s = Some sess \<Longrightarrow> \<not> canCapture s \<Longrightarrow>
   startVerification cam reply s =
     s\<lparr>error := Some ''Pastikan wajah terdeteksi dengan baik dan posisi tepat di tengah''\<rparr>"
  by (auto simp add: startVerification_def canCapture_def)

text \<open>
  Claim C7. After a detection tick that saw more than one face the face count is above
  one and the capture-eligibility predicate is false, whatever the distance class is,
  so the capture button is disabled.
  With a session held, as it is throughout the camera step, \<open>startVerification\<close> then
  changes nothing but the error message. Capture stays disabled over any later ticks
  none of which sees exactly one face at good distance, and the first tick that does
  enables it again.
\<close>

theorem many_faces_disable_capture:
  assumes "refsReady t" and "predictions t = Some ps" and "1 < length ps"
    and "session s = Some sess"
  shows "1 < faceCount (detectFace s t)
       \<and> \<not> canCapture (detectFace s t)
       \<and> captureDisabled (detectFace s t)
       \<and> startVerification cam reply (detectFace s t) =
           (detectFace s t)
             \<lparr>error := Some ''Pastikan wajah terdeteksi dengan baik dan posisi tepat di tengah''\<rparr>
       \<and> (\<forall>ts. (\<forall>u \<in> set ts. \<not> seesOneGood u) \<longrightarrow>
             \<not> canCapture (foldl detectFace (detectFace s t) ts))
       \<and> (\<forall>ts u. seesOneGood u \<longrightarrow>
             canCapture (detectFace (foldl detectFace (detectFace s t) ts) u))"
proof -
  let ?s' = "detectFace s t"
  have eq: "?s' = s\<lparr>faceCount := length ps, borderColor := Red,
                    instruction := ''Pastikan hanya satu wajah dalam bingkai''\<rparr>"
    by (rule detectFace_many [OF assms(1,2,3)])
  have cnt: "1 < faceCount ?s'"
    using assms(3) by (simp add: eq)
  have no: "\<not> canCapture ?s'"
    using cnt by (simp add: canCapture_def)
  have dis: "captureDisabled ?s'"
    using cnt by (simp add: captureDisabled_def)
  have sess: "session ?s' = Some sess"
    using assms(4) by (simp add: eq)
  have refused: "startVerification cam reply ?s' =
      ?s'\<lparr>error := Some ''Pastikan wajah terdeteksi dengan baik dan posisi tepat di tengah''\<rparr>"
    by (rule startVerification_refused [OF sess no])
  have stay: "\<forall>ts. (\<forall>u \<in> set ts. \<not> seesOneGood u) \<longrightarrow> \<not> canCapture (foldl detectFace ?s' ts)"
    using no by (simp add: ticks_stay_disabled)
  show ?thesis
    using cnt no dis refused stay seesOneGood_enables by blast
qed

text \<open>
  Two faces, then no face, then one face too far away: capture is disabled throughout;
  then one face at good distance: capture is enabled.
\<close>

theorem many_faces_disable_capture_witness:
  "faceCount (detectFace (readyPage Passive passiveSession)
      (tickOf [boxAt 480 480, boxAt 200 200])) = 2
   \<and> \<not> canCapture (detectFace (readyPage Passive passiveSession)
      (tickOf [boxAt 480 480, boxAt 200 200]))
   \<and> step (startVerification steadyCam (ReplyOk None)
        (detectFace (readyPage Passive passiveSession)
           (tickOf [boxAt 480 480, boxAt 200 200]))) = Camera
   \<and> error (startVerification steadyCam (ReplyOk None)
        (detectFace (readyPage Passive passiveSession)
           (tickOf [boxAt 480 480, boxAt 200 200]))) =
       Some ''Pastikan wajah terdeteksi dengan baik dan posisi tepat di tengah''
   \<and> frames (startVerification steadyCam (ReplyOk None)
        (detectFace (readyPage Passive passiveSession)
           (tickOf [boxAt 480 480, boxAt 200 200]))) = []
   \<and> \<not> canCapture (foldl detectFace
        (detectFace (readyPage Passive passiveSession)
           (tickOf [boxAt 480 480, boxAt 200 200]))
        [tickOf [], tickOf [boxAt 320 288]])
   \<and> canCapture (detectFace (foldl detectFace
        (detectFace (readyPage Passive passiveSession)
           (tickOf [boxAt 480 480, boxAt 200 200]))
        [tickOf [], tickOf [boxAt 320 288]]) (tickOf [boxAt 480 480]))"
proof -
  let ?ps = "[boxAt 480 480, boxAt 200 200]"
  let ?t = "tickOf ?ps"
  let ?s = "readyPage Passive passiveSession"
  let ?ts = "[tickOf [], tickOf [boxAt 320 288]]"
  have h1: "refsReady ?t" and h2: "predictions ?t = Some ?ps"
    by (simp_all add: tickOf_simps)
  have h3: "1 < length ?ps"
    by simp
  have h4: "session ?s = Some passiveSession"
    by (simp add: readyPage_flow)
  note th = many_faces_disable_capture [OF h1 h2 h3 h4, of steadyCam "ReplyOk None"]
  have g: "seesOneGood (tickOf [boxAt 480 480])"
    by (simp add: seesOneGood_def tickOf_simps tick_ratio)
  have b: "\<forall>u \<in> set ?ts. \<not> seesOneGood u"
    by (simp add: seesOneGood_def tickOf_simps tick_ratio)
  have m: "detectFace ?s ?t = ?s\<lparr>faceCount := 2, borderColor := Red,
                    instruction := ''Pastikan hanya satu wajah dalam bingkai''\<rparr>"
    using detectFace_many [OF h1 h2 h3, of ?s] by simp
  have c1: "faceCount (detectFace ?s ?t) = 2"
    by (simp add: m)
  have c2: "\<not> canCapture (detectFace ?s ?t)"
    using th by blast
  have c3: "startVerification steadyCam (ReplyOk None) (detectFace ?s ?t) =
      (detectFace ?s ?t)
        \<lparr>error := Some ''Pastikan wajah terdeteksi dengan baik dan posisi tepat di tengah''\<rparr>"
    using th by blast
  have c4: "\<not> canCapture (foldl detectFace (detectFace ?s ?t) ?ts)"
    using th b by blast
  have c5: "canCapture (detectFace (foldl detectFace (detectFace ?s ?t) ?ts)
      (tickOf [boxAt 480 480]))"
    using th g by blast
  have c6: "step (startVerification steadyCam (ReplyOk None) (detectFace ?s ?t)) = Camera"
    and c7: "error (startVerification steadyCam (ReplyOk None) (detectFace ?s ?t)) =
      Some ''Pastikan wajah terdeteksi dengan baik dan posisi tepat di tengah''"
    and c8: "frames (startVerification steadyCam (ReplyOk None) (detectFace ?s ?t)) = []"
    unfolding c3 by (simp_all add: m readyPage_flow)
  show ?thesis
    using c1 c2 c4 c5 c6 c7 c8 by blast
qed

subsection \<open>No face\<close>

text \<open>
  Claim C8. A detection tick with zero detections sets \<open>faceDetected\<close> to false, the face
  count to 0 and the distance class to none (\<open>detectFace_none\<close>). It sets neither the
  instruction nor the border colour, which the other branches of \<open>detectFace\<close> all set:
  after a tick with one face at good distance, a tick with no face leaves the text
  "face detected" and the green border on the screen.
\<close>

theorem no_face_keeps_instruction_and_border:
  "faceDetected (detectFace (readyPage Passive passiveSession) (tickOf [])) = False
   \<and> faceCount (detectFace (readyPage Passive passiveSession) (tickOf [])) = 0
   \<and> faceDistance (detectFace (readyPage Passive passiveSession) (tickOf [])) = None
   \<and> instruction (detectFace (readyPage Passive passiveSession) (tickOf [])) =
       ''Wajah terdeteksi''
   \<and> borderColor (detectFace (readyPage Passive passiveSession) (tickOf [])) = Green"
  by (simp add: detectFace_none [OF tickOf_simps] readyPage_guidance)

section \<open>Properties of the capture state machine\<close>

subsection \<open>The loops\<close>

lemma submitVerification_keeps:
  "frames (submitVerification reply s) = frames s"
  "now (submitVerification reply s) = now s"
  by (simp_all add: submitVerification_def stopCamera_def Let_def
      split: option.splits verify_reply.splits)

lemma passiveLoop_run:
  "now s = t0 + 400 * i \<Longrightarrow> i \<le> 5 \<Longrightarrow> \<forall>k<5. cam (t0 + 400 * k) = Some (img k) \<Longrightarrow>
   frames (passiveLoop cam i s) =
     frames s @ map (\<lambda>k. \<lparr> timestamp = t0 + 400 * k, action = None, image = img k \<rparr>) [i..<5]
   \<and> now (passiveLoop cam i s) = t0 + 2000"
proof (induction cam i s rule: passiveLoop.induct)
  case (1 cam i s)
  show ?case
  proof (cases "i < 5")
    case False
    then have stop: "passiveLoop cam i s = s"
      by (simp add: passiveLoop.simps [of cam i s])
    from False "1.prems" have "i = 5" by simp
    with "1.prems" show ?thesis
      unfolding stop by simp
  next
    case True
    let ?f = "\<lparr> timestamp = t0 + 400 * i, action = None, image = img i \<rparr>"
    let ?s' = "sleep 400 (pushFrame (captureFrame cam s None) s)"
    have cap: "captureFrame cam s None = Some ?f"
      using "1.prems" True by (simp add: captureFrame_def)
    have now': "now ?s' = t0 + 400 * Suc i"
      using "1.prems"(1) by (simp add: sleep_def pushFrame_def cap)
    have fr': "frames ?s' = frames s @ [?f]"
      by (simp add: sleep_def pushFrame_def cap)
    have ih: "frames (passiveLoop cam (Suc i) ?s') =
        frames ?s' @ map (\<lambda>k. \<lparr> timestamp = t0 + 400 * k, action = None, image = img k \<rparr>) [Suc i..<5]
      \<and> now (passiveLoop cam (Suc i) ?s') = t0 + 2000"
      using "1.IH" [OF True now' _ "1.prems"(3)] True by simp
    have unroll: "passiveLoop cam i s = passiveLoop cam (Suc i) ?s'"
      using True by (simp add: passiveLoop.simps [of cam i s])
    have upt: "[i..<5] = i # [Suc i..<5]"
      using True by (simp add: upt_conv_Cons)
    show ?thesis
      by (simp add: unroll ih fr' upt)
  qed
qed



lemma passiveLoop_steady:
  "passiveLoop steadyCam 0 s =
     s\<lparr>frames := frames s @
          [\<lparr> timestamp = now s, action = None, image = ''jpeg'' \<rparr>,
           \<lparr> timestamp = now s + 400, action = None, image = ''jpeg'' \<rparr>,
           \<lparr> timestamp = now s + 800, action = None, image = ''jpeg'' \<rparr>,
           \<lparr> timestamp = now s + 1200, action = None, image = ''jpeg'' \<rparr>,
           \<lparr> timestamp = now s + 1600, action = None, image = ''jpeg'' \<rparr>],
       now := now s + 2000\<rparr>"
  by (simp add: passiveLoop.simps captureFrame_def steadyCam_def pushFrame_def sleep_def)

lemma passiveLoop_dead: "passiveLoop deadCam 0 s = s\<lparr>now := now s + 2000\<rparr>"
  by (simp add: passiveLoop.simps captureFrame_def deadCam_def pushFrame_def sleep_def)

lemma countdown_3: "countdownLoop 3 s = s\<lparr>countdown := Some 1, now := now s + 3000\<rparr>"
  by (simp add: numeral_3_eq_3 sleep_def)

lemma readyPage_start:
  "startVerification cam reply (readyPage Passive sess) =
     (runPassiveVerification cam reply
        ((readyPage Passive sess)
           \<lparr>isCapturing := True, instruction := ''Bersiap...'', now := 4000,
            countdown := None\<rparr>))
       \<lparr>isCapturing := False\<rparr>"
  by (simp add: startVerification_def readyPage_flow readyPage_guidance countdown_3 Let_def)

subsection \<open>Passive capture\<close>

text \<open>
  Claim C4. A passive capture run in which each of the five captures delivers an image
  leaves exactly five frames in the buffer, none with a challenge tag, stamped 400 ms
  apart from the start of the run; the run ends 2000 ms after its start. Time is the
  model's clock, which a wait moves on by exactly its delay, and the run is one call of
  \<open>runPassiveVerification\<close>, with nothing interleaved.
\<close>

theorem passive_capture_five_frames:
  assumes "\<forall>k<5. cam (now s + 400 * k) = Some (img k)"
  shows "frames (runPassiveVerification cam reply s) =
           [\<lparr> timestamp = now s, action = None, image = img 0 \<rparr>,
            \<lparr> timestamp = now s + 400, action = None, image = img 1 \<rparr>,
            \<lparr> timestamp = now s + 800, action = None, image = img 2 \<rparr>,
            \<lparr> timestamp = now s + 1200, action = None, image = img 3 \<rparr>,
            \<lparr> timestamp = now s + 1600, action = None, image = img 4 \<rparr>]
       \<and> length (frames (runPassiveVerification cam reply s)) = 5
       \<and> (\<forall>f \<in> set (frames (runPassiveVerification cam reply s)). action f = None)
       \<and> now (runPassiveVerification cam reply s) = now s + 2000"
proof -
  let ?s1 = "s\<lparr>instruction := ''Tetap diam, sedang memverifikasi...'',
               borderColor := Green, frames := []\<rparr>"
  have run: "frames (passiveLoop cam 0 ?s1) =
      frames ?s1 @ map (\<lambda>k. \<lparr> timestamp = now s + 400 * k, action = None, image = img k \<rparr>) [0..<5]
    \<and> now (passiveLoop cam 0 ?s1) = now s + 2000"
    using assms by (intro passiveLoop_run) simp_all
  have five: "[0..<5] = [0, 1, 2, 3, 4::nat]"
    by (simp add: upt_rec)
  have fr: "frames (runPassiveVerification cam reply s) =
           [\<lparr> timestamp = now s, action = None, image = img 0 \<rparr>,
            \<lparr> timestamp = now s + 400, action = None, image = img 1 \<rparr>,
            \<lparr> timestamp = now s + 800, action = None, image = img 2 \<rparr>,
            \<lparr> timestamp = now s + 1200, action = None, image = img 3 \<rparr>,
            \<lparr> timestamp = now s + 1600, action = None, image = img 4 \<rparr>]"
    using run by (simp add: runPassiveVerification_def submitVerification_keeps five)
  have nw: "now (runPassiveVerification cam reply s) = now s + 2000"
    using run by (simp add: runPassiveVerification_def submitVerification_keeps)
  show ?thesis
    unfolding fr using nw by simp
qed

text \<open>The run from the ready page, whose clock stands at 1000, with a steady camera.\<close>

theorem passive_capture_five_frames_witness:
  "frames (runPassiveVerification steadyCam (ReplyOk None) (readyPage Passive passiveSession)) =
     [\<lparr> timestamp = 1000, action = None, image = ''jpeg'' \<rparr>,
      \<lparr> timestamp = 1400, action = None, image = ''jpeg'' \<rparr>,
      \<lparr> timestamp = 1800, action = None, image = ''jpeg'' \<rparr>,
      \<lparr> timestamp = 2200, action = None, image = ''jpeg'' \<rparr>,
      \<lparr> timestamp = 2600, action = None, image = ''jpeg'' \<rparr>]
   \<and> now (runPassiveVerification steadyCam (ReplyOk None) (readyPage Passive passiveSession)) =
       3000"
proof -
  have h: "\<forall>k<5. steadyCam (now (readyPage Passive passiveSession) + 400 * k) =
      Some ((\<lambda>k. ''jpeg'') k)"
    by (simp add: steadyCam_def)
  show ?thesis
    using passive_capture_five_frames [OF h, of "ReplyOk None"]
    by (simp add: readyPage_flow)
qed

subsection \<open>Active capture\<close>



subsection \<open>Reset\<close>

text \<open>
  Claim C6. From every state \<open>handleReset\<close> leads to the input step with an empty frame
  buffer, no session, no result, no error, the guidance state cleared (no face, face
  count 0, no distance class, oval size 60, white border), no detection timer (and the
  effect that owns the timer starts none), and the camera released. The state after is
  the state of a fresh page but for the cells that \<open>handleReset\<close> does not touch (the
  NIK, the chosen method, \<open>loading\<close>, \<open>countdown\<close>, the instruction text) and the ghost
  fields; a second reset changes nothing.
\<close>

theorem reset_post_state:
  "step (handleReset s) = Input
   \<and> frames (handleReset s) = []
   \<and> session (handleReset s) = None
   \<and> result (handleReset s) = None
   \<and> error (handleReset s) = None
   \<and> faceDetected (handleReset s) = False
   \<and> faceCount (handleReset s) = 0
   \<and> faceDistance (handleReset s) = None
   \<and> ovalSize (handleReset s) = Fin 60
   \<and> borderColor (handleReset s) = White
   \<and> isCapturing (handleReset s) = False
   \<and> detectionTimer (handleReset s) = False
   \<and> detectionEffect (handleReset s) = handleReset s
   \<and> streamActive (handleReset s) = False
   \<and> cameraReady (handleReset s) = False
   \<and> handleReset s =
       (initialPage (now s))
         \<lparr>nik := nik s, pageMethod := pageMethod s, loading := loading s,
          countdown := countdown s, instruction := instruction s, requests := requests s\<rparr>
   \<and> handleReset (handleReset s) = handleReset s"
  by (simp add: handleReset_def stopCamera_def detectionEffect_def initialPage_def)

subsection \<open>Submission with an empty buffer\<close>

text \<open>
  Claim C2 says that an empty frame buffer at submission routes the page to the result
  step. It does not: a passive run in which every capture fails reaches
  \<open>submitVerification\<close> with an empty buffer, and the page is left in the camera step,
  with the error set and the camera still running.
\<close>

theorem empty_buffer_stays_in_camera:
  "frames (startVerification deadCam (ReplyOk None) (readyPage Passive passiveSession)) = []
   \<and> step (startVerification deadCam (ReplyOk None) (readyPage Passive passiveSession)) = Camera
   \<and> step (startVerification deadCam (ReplyOk None) (readyPage Passive passiveSession)) \<noteq> Result
   \<and> error (startVerification deadCam (ReplyOk None) (readyPage Passive passiveSession)) =
       Some ''Tidak ada frame yang di-capture''
   \<and> streamActive (startVerification deadCam (ReplyOk None) (readyPage Passive passiveSession))"
  by (simp add: readyPage_start runPassiveVerification_def passiveLoop_dead
      submitVerification_def readyPage_flow Let_def)

text \<open>
  Claim C2, amended. With an empty frame buffer \<open>submitVerification\<close> sends no request
  and sets the error message; it changes nothing else, so the step stays what it was
  and the camera is not released.
\<close>

theorem empty_buffer_submission:
  assumes "frames s = []"
  shows "submitVerification reply s = s\<lparr>error := Some ''Tidak ada frame yang di-capture''\<rparr>
       \<and> requests (submitVerification reply s) = requests s
       \<and> step (submitVerification reply s) = step s
       \<and> streamActive (submitVerification reply s) = streamActive s
       \<and> error (submitVerification reply s) = Some ''Tidak ada frame yang di-capture''"
  using assms by (simp add: submitVerification_def split: option.splits)

theorem empty_buffer_submission_witness:
  "requests (submitVerification (ReplyOk None) (readyPage Passive passiveSession)) = []
   \<and> step (submitVerification (ReplyOk None) (readyPage Passive passiveSession)) = Camera
   \<and> error (submitVerification (ReplyOk None) (readyPage Passive passiveSession)) =
       Some ''Tidak ada frame yang di-capture''"
  using empty_buffer_submission [of "readyPage Passive passiveSession" "ReplyOk None"]
  by (simp add: readyPage_flow)

subsection \<open>Submission with frames\<close>

text \<open>
  Claim C3 says that every failure of the submit call surfaces as a result value with
  \<open>isLive = false\<close> and the failure reason and error code filled in. A request that
  throws sets the error message and no result at all; and a failure reply that carries
  no error code gives a result without one.
\<close>

theorem request_failure_sets_no_result:
  "step (startVerification steadyCam (Threw (Some ''Failed to fetch''))
       (readyPage Passive passiveSession)) = Result
   \<and> length (frames (startVerification steadyCam (Threw (Some ''Failed to fetch''))
       (readyPage Passive passiveSession))) = 5
   \<and> result (startVerification steadyCam (Threw (Some ''Failed to fetch''))
       (readyPage Passive passiveSession)) = None
   \<and> error (startVerification steadyCam (Threw (Some ''Failed to fetch''))
       (readyPage Passive passiveSession)) = Some ''Failed to fetch''
   \<and> result (startVerification steadyCam (ReplyFail (Some ''Session expired'') None)
       (readyPage Passive passiveSession)) =
       Some \<lparr> resSessionId = ''s-1'', resNik = ''3275035402950020'',
              resMethod = ''passive'', isLive = False, confidence = 0, fileFace = None,
              failureReason = Some ''Session expired'', errorCode = None \<rparr>"
  by (simp add: readyPage_start runPassiveVerification_def passiveLoop_steady
      submitVerification_def stopCamera_def orElse_def readyPage_flow Let_def
      passiveSession_def methodName_def)

text \<open>
  Claim C3, amended. With a session and a non-empty frame buffer \<open>submitVerification\<close>
  sends one request with the buffer, releases the camera and ends in the result step,
  whatever the reply. A reply that reports a failure gives a result value with
  \<open>isLive = false\<close>, confidence 0, the reply's message (or "Verification failed") as
  failure reason and the reply's error code, if it has one, as error code. A request
  that throws leaves the result as it was and sets the error message. A reply that
  reports success gives its data as the result.
\<close>

theorem submission_reaches_result:
  assumes "session s = Some sess" and "frames s \<noteq> []"
  shows "step (submitVerification reply s) = Result
       \<and> requests (submitVerification reply s) = requests s @ [(sessionId sess, frames s)]
       \<and> streamActive (submitVerification reply s) = False
       \<and> (\<forall>msg code. reply = ReplyFail msg code \<longrightarrow>
             result (submitVerification reply s) =
               Some \<lparr> resSessionId = sessionId sess, resNik = sessionNik sess,
                      resMethod = methodName (sessionMethod sess), isLive = False,
                      confidence = 0, fileFace = None,
                      failureReason = Some (orElse msg ''Verification failed''),
                      errorCode = code \<rparr>
           \<and> error (submitVerification reply s) = error s)
       \<and> (\<forall>msg. reply = Threw msg \<longrightarrow>
             result (submitVerification reply s) = result s
           \<and> error (submitVerification reply s) =
               Some (orElse msg ''Terjadi kesalahan saat verifikasi''))
       \<and> (\<forall>d. reply = ReplyOk d \<longrightarrow>
             result (submitVerification reply s) = d
           \<and> error (submitVerification reply s) = error s)"
  using assms
  by (cases reply) (simp_all add: submitVerification_def stopCamera_def Let_def)

theorem submission_reaches_result_witness:
  "step (submitVerification (ReplyFail None (Some ''E42''))
      (passiveLoop steadyCam 0 (readyPage Passive passiveSession))) = Result
   \<and> result (submitVerification (ReplyFail None (Some ''E42''))
      (passiveLoop steadyCam 0 (readyPage Passive passiveSession))) =
       Some \<lparr> resSessionId = ''s-1'', resNik = ''3275035402950020'',
              resMethod = ''passive'', isLive = False, confidence = 0, fileFace = None,
              failureReason = Some ''Verification failed'', errorCode = Some ''E42'' \<rparr>
   \<and> length (requests (submitVerification (ReplyFail None (Some ''E42''))
      (passiveLoop steadyCam 0 (readyPage Passive passiveSession)))) = 1
   \<and> step (submitVerification (Threw None)
      (passiveLoop steadyCam 0 (readyPage Passive passiveSession))) = Result
   \<and> result (submitVerification (Threw None)
      (passiveLoop steadyCam 0 (readyPage Passive passiveSession))) = None
   \<and> error (submitVerification (Threw None)
      (passiveLoop steadyCam 0 (readyPage Passive passiveSession))) =
       Some ''Terjadi kesalahan saat verifikasi''"
proof -
  let ?s = "passiveLoop steadyCam 0 (readyPage Passive passiveSession)"
  have h1: "session ?s = Some passiveSession"
    by (simp add: passiveLoop_steady readyPage_flow)
  have h2: "frames ?s \<noteq> []"
    by (simp add: passiveLoop_steady)
  have h3: "requests ?s = []" "result ?s = None"
    by (simp_all add: passiveLoop_steady readyPage_flow)
  have h4: "sessionId passiveSession = ''s-1''"
    "sessionNik passiveSession = ''3275035402950020''"
    "methodName (sessionMethod passiveSession) = ''passive''"
    by (simp_all add: passiveSession_def methodName_def)
  show ?thesis
    using submission_reaches_result [OF h1 h2, of "ReplyFail None (Some ''E42'')"]
      submission_reaches_result [OF h1 h2, of "Threw None"]
    by (simp add: orElse_def h3 h4)
qed

end
